theory Spec2Isabelle
  imports Complex_Main
begin

section \<open>JavaScript values, strings and regular expressions\<close>

text \<open>
  The values a search criterion or a bound query parameter can hold. Numbers that are
  only stored and compared (prices) are rationals; identifiers and versions are integers.
\<close>

datatype jsval = JUndefined | JBool bool | JNum rat | JStr string

text \<open>The double quote, which is a literal character of a version token.\<close>

definition dq :: char where
  "dq = CHR 0x22"

definition is_digit :: "char \<Rightarrow> bool" where
  "is_digit c = (c \<in> set ''0123456789'')"

text \<open>
  White space that \<open>Number.parseInt\<close> skips: TAB, LF, VT, FF, CR, SP and NBSP
  (the code points a \<open>char\<close> can hold).
\<close>

definition is_space :: "char \<Rightarrow> bool" where
  "is_space c = (c \<in> set [CHR 0x09, CHR 0x0A, CHR 0x0B, CHR 0x0C, CHR 0x0D, CHR 0x20, CHR 0xA0])"

definition digit_val :: "char \<Rightarrow> int" where
  "digit_val c = int (of_char c) - 48"

text \<open>
  \<open>String.prototype.slice(start, end)\<close>: a negative index counts from the end, and both
  indices are clamped to the string.
\<close>

definition slice :: "string \<Rightarrow> int \<Rightarrow> int \<Rightarrow> string" where
  "slice s b e =
     (let n = int (length s);
          from = (if b < 0 then max (n + b) 0 else min b n);
          to = (if e < 0 then max (n + e) 0 else min e n)
      in take (nat (to - from)) (drop (nat from) s))"

text \<open>
  \<open>Number.parseInt(s, 10)\<close>: leading white space is skipped, an optional sign is read,
  then the longest run of decimal digits; \<open>None\<close> is \<open>NaN\<close> (no digit at all).
\<close>

definition parseInt :: "string \<Rightarrow> int option" where
  "parseInt s =
     (let t = dropWhile is_space s;
          neg = (case t of [] \<Rightarrow> False | c # _ \<Rightarrow> c = CHR ''-'');
          u = (case t of [] \<Rightarrow> [] | c # r \<Rightarrow> if c = CHR ''-'' \<or> c = CHR ''+'' then r else t);
          ds = takeWhile is_digit u
      in if ds = [] then None
         else Some ((if neg then - 1 else 1) * foldl (\<lambda>acc c. 10 * acc + digit_val c) 0 ds))"

text \<open>
  The fragment of regular expressions the services use: a pattern is a sequence of
  items, each a single atom or a bounded repetition \<open>x{lo,hi}\<close>; an atom is a literal
  character or \<open>\d\<close> (an ASCII digit, also under the \<open>u\<close> flag). Every pattern here starts
  with \<open>^\<close>, so \<open>test\<close> matches at the first character only. A pattern without a final
  \<open>$\<close> does not look at what follows the match.
\<close>

datatype atom = Lit char | Digit

datatype item = Once atom | Rep atom nat nat

fun atom_ok :: "atom \<Rightarrow> char \<Rightarrow> bool" where
  "atom_ok (Lit c) x = (x = c)"
| "atom_ok Digit x = is_digit x"

fun match_prefix :: "item list \<Rightarrow> string \<Rightarrow> bool" where
  "match_prefix [] s = True"
| "match_prefix (Once a # r) s =
     (case s of [] \<Rightarrow> False | c # cs \<Rightarrow> atom_ok a c \<and> match_prefix r cs)"
| "match_prefix (Rep a lo hi # r) s =
     ((lo = 0 \<and> match_prefix r s) \<or>
      (0 < hi \<and> (case s of [] \<Rightarrow> False
                 | c # cs \<Rightarrow> atom_ok a c \<and> match_prefix (Rep a (lo - 1) (hi - 1) # r) cs)))"

definition test :: "item list \<Rightarrow> string \<Rightarrow> bool" where
  "test re s = match_prefix re s"

section \<open>Entities and storage\<close>

text \<open>
  The entity objects as the services handle them. A property typed \<open>T | undefined\<close> is an
  option. The back references of a model and of a seat to their aircraft are not hydrated
  when they are loaded through the aircraft, so the entities do not carry them; the stored
  rows hold them as foreign keys.
\<close>

record Modell =
  m_id :: "int option"
  m_modell :: string

record Sitzplatz =
  s_id :: "int option"
  s_sitzplatzklasse :: string

record Flugzeug =
  f_id :: "int option"
  f_version :: "int option"
  f_preis :: rat
  f_einsatzbereit :: "bool option"
  f_baujahr :: "string option"
  f_modell :: "Modell option"
  f_sitzplaetze :: "Sitzplatz list option"
  f_erzeugt :: "string option"
  f_aktualisiert :: "string option"

text \<open>
  The property names of an aircraft entity, as the object literals typed \<open>Flugzeug\<close> in
  the transport adapters list them; the read service reads them off a dummy entity.
\<close>

definition flugzeugPropertyNames :: "string list" where
  "flugzeugPropertyNames =
     [''id'', ''version'', ''preis'', ''einsatzbereit'', ''baujahr'', ''modell'',
      ''sitzplaetze'', ''erzeugt'', ''aktualisiert'']"

text \<open>The stored rows of the three tables.\<close>

record flugzeug_row =
  r_id :: int
  r_version :: int
  r_preis :: rat
  r_einsatzbereit :: "bool option"
  r_baujahr :: "string option"
  r_erzeugt :: "string option"
  r_aktualisiert :: "string option"

record modell_row =
  mr_id :: int
  mr_modell :: string
  mr_flugzeug_id :: int

record sitzplatz_row =
  sr_id :: int
  sr_sitzplatzklasse :: string
  sr_flugzeug_id :: int

text \<open>
  The statements the storage has executed, as the journal records them: the statements
  that change the tables, and the start and the end of a transaction.
\<close>

datatype stmt =
    StartTransaction | Commit | Rollback
  | DeleteModell int | DeleteSitzplatz int | DeleteFlugzeug int | SaveFlugzeug int

record db =
  flugzeuge :: "flugzeug_row list"
  modelle :: "modell_row list"
  sitzplaetze :: "sitzplatz_row list"
  journal :: "stmt list"

text \<open>
  The key constraints of the schema: primary keys are unique, and the one-to-one relation
  gives every aircraft at most one model row.
\<close>

definition wf_db :: "db \<Rightarrow> bool" where
  "wf_db d =
     (distinct (map r_id (flugzeuge d)) \<and> distinct (map mr_id (modelle d)) \<and>
      distinct (map mr_flugzeug_id (modelle d)) \<and> distinct (map sr_id (sitzplaetze d)))"

definition modell_of_row :: "modell_row \<Rightarrow> Modell" where
  "modell_of_row m = \<lparr>m_id = Some (mr_id m), m_modell = mr_modell m\<rparr>"

definition sitzplatz_of_row :: "sitzplatz_row \<Rightarrow> Sitzplatz" where
  "sitzplatz_of_row s = \<lparr>s_id = Some (sr_id s), s_sitzplatzklasse = sr_sitzplatzklasse s\<rparr>"

definition flugzeug_of_row :: "flugzeug_row \<Rightarrow> Flugzeug" where
  "flugzeug_of_row r =
     \<lparr>f_id = Some (r_id r), f_version = Some (r_version r), f_preis = r_preis r,
      f_einsatzbereit = r_einsatzbereit r, f_baujahr = r_baujahr r, f_modell = None,
      f_sitzplaetze = None, f_erzeugt = r_erzeugt r, f_aktualisiert = r_aktualisiert r\<rparr>"

datatype notfound_msg =
    KeinFlugzeugMitId "int option"
  | UngueltigeSuchkriterien
  | KeineFlugzeugeGefunden "(string \<times> jsval) list"

datatype error =
    NotFoundException notfound_msg
  | VersionInvalidException string
  | VersionOutdatedException int
  | PersistenceFailure string
  | QueryFailedError stmt

section \<open>Query builder\<close>

text \<open>
  A select query as the query builder accumulates it: the alias of the root table, the
  joins, the conditions (the first one set by \<open>where\<close>, the others added by \<open>andWhere\<close>),
  each as the SQL text with placeholders, and the bound parameters.
\<close>

datatype join_type = InnerJoin | LeftJoin

datatype where_type = SimpleWhere | AndWhere

record select_query =
  q_alias :: string
  q_joins :: "(join_type \<times> string \<times> string) list"
  q_wheres :: "(where_type \<times> string) list"
  q_parameters :: "(string \<times> jsval) list"

definition createQueryBuilder :: "string \<Rightarrow> select_query" where
  "createQueryBuilder alias = \<lparr>q_alias = alias, q_joins = [], q_wheres = [], q_parameters = []\<rparr>"

definition innerJoinAndSelect :: "select_query \<Rightarrow> string \<Rightarrow> string \<Rightarrow> select_query" where
  "innerJoinAndSelect q property alias = q\<lparr>q_joins := q_joins q @ [(InnerJoin, property, alias)]\<rparr>"

definition leftJoinAndSelect :: "select_query \<Rightarrow> string \<Rightarrow> string \<Rightarrow> select_query" where
  "leftJoinAndSelect q property alias = q\<lparr>q_joins := q_joins q @ [(LeftJoin, property, alias)]\<rparr>"

text \<open>\<open>where\<close> replaces the conditions set so far; \<open>andWhere\<close> adds one. Both bind parameters.\<close>

definition where_qb :: "select_query \<Rightarrow> string \<Rightarrow> (string \<times> jsval) list \<Rightarrow> select_query" where
  "where_qb q condition ps =
     q\<lparr>q_wheres := [(SimpleWhere, condition)], q_parameters := q_parameters q @ ps\<rparr>"

definition andWhere :: "select_query \<Rightarrow> string \<Rightarrow> (string \<times> jsval) list \<Rightarrow> select_query" where
  "andWhere q condition ps =
     q\<lparr>q_wheres := q_wheres q @ [(AndWhere, condition)], q_parameters := q_parameters q @ ps\<rparr>"

text \<open>
  The aliases: the class names with a lower-case first letter,
  \<open>name.charAt(0).toLowerCase()\<close> followed by \<open>name.slice(1)\<close>.
\<close>

definition charAt :: "string \<Rightarrow> nat \<Rightarrow> string" where
  "charAt s i = (if i < length s then [s ! i] else [])"

definition lower_char :: "char \<Rightarrow> char" where
  "lower_char c =
     (let n = (of_char c :: nat)
      in if (65 \<le> n \<and> n \<le> 90) \<or> (192 \<le> n \<and> n \<le> 222 \<and> n \<noteq> 215) then char_of (n + 32) else c)"

definition toLowerCase :: "string \<Rightarrow> string" where
  "toLowerCase s = map lower_char s"

definition alias_of :: "string \<Rightarrow> string" where
  "alias_of name = toLowerCase (charAt name 0) @ slice name 1 (int (length name))"

definition flugzeugAlias :: string where
  "flugzeugAlias = alias_of ''Flugzeug''"

definition modellAlias :: string where
  "modellAlias = alias_of ''Modell''"

definition abbildungAlias :: string where
  "abbildungAlias = alias_of ''Sitzplatz''"

definition buildId :: "int \<Rightarrow> bool \<Rightarrow> select_query" where
  "buildId ident mitSitzplaetze =
     (let queryBuilder = createQueryBuilder flugzeugAlias;
          queryBuilder = innerJoinAndSelect queryBuilder (flugzeugAlias @ ''.modell'') modellAlias;
          queryBuilder = (if mitSitzplaetze
                          then leftJoinAndSelect queryBuilder (flugzeugAlias @ ''.sitzplaetze'') abbildungAlias
                          else queryBuilder)
      in where_qb queryBuilder (flugzeugAlias @ ''.id = :id'') [(''id'', JNum (of_int ident))])"

text \<open>
  \<open>build({ modell, ...props })\<close>. The criteria are an object: a list of key-value pairs in
  the order \<open>Object.keys\<close> enumerates them. \<open>typeOrmModuleOptions.type\<close> is configuration.
\<close>

definition build_step ::
  "(string \<times> jsval) list \<Rightarrow> select_query \<times> bool \<Rightarrow> string \<Rightarrow> select_query \<times> bool" where
  "build_step props st key =
     (let queryBuilder = fst st; useWhere = snd st;
          param = [(key, case map_of props key of None \<Rightarrow> JUndefined | Some v \<Rightarrow> v)];
          condition = flugzeugAlias @ ''.'' @ key @ '' = :'' @ key
      in (if useWhere then where_qb queryBuilder condition param
          else andWhere queryBuilder condition param, False))"

definition build :: "string \<Rightarrow> (string \<times> jsval) list \<Rightarrow> select_query" where
  "build dbType suchkriterien =
     (let modell = (case map_of suchkriterien ''modell'' of None \<Rightarrow> JUndefined | Some v \<Rightarrow> v);
          props = filter (\<lambda>kv. fst kv \<noteq> ''modell'') suchkriterien;
          queryBuilder = createQueryBuilder flugzeugAlias;
          queryBuilder = innerJoinAndSelect queryBuilder (flugzeugAlias @ ''.modell'') ''modell'';
          st = (case modell of
                  JStr m \<Rightarrow>
                    (let ilike = (if dbType = ''postgres'' then ''ilike'' else ''like'')
                     in (where_qb queryBuilder (modellAlias @ ''.modell '' @ ilike @ '' :modell'')
                           [(''modell'', JStr (''%'' @ m @ ''%''))], False))
                | _ \<Rightarrow> (queryBuilder, True))
      in fst (foldl (build_step props) st (map fst props)))"

section \<open>Query execution\<close>

text \<open>
  Executing a select query: every aircraft row becomes an entity, the joins attach the
  related rows (an inner join drops an aircraft that has no model row; a left join keeps
  it and attaches the possibly empty list of seats), and the conditions filter the
  result. How the database engine evaluates a condition text under the bound parameters
  is the engine's business: it is the parameter \<open>sat\<close>.
\<close>

type_synonym engine = "string \<Rightarrow> (string \<times> jsval) list \<Rightarrow> Flugzeug \<Rightarrow> bool"

definition join_one :: "db \<Rightarrow> (join_type \<times> string \<times> string) \<Rightarrow> flugzeug_row \<Rightarrow> Flugzeug \<Rightarrow> Flugzeug option" where
  "join_one d j r f =
     (if fst (snd j) = flugzeugAlias @ ''.modell'' then
        (case List.find (\<lambda>m. mr_flugzeug_id m = r_id r) (modelle d) of
           None \<Rightarrow> (if fst j = InnerJoin then None else Some f)
         | Some m \<Rightarrow> Some (f\<lparr>f_modell := Some (modell_of_row m)\<rparr>))
      else if fst (snd j) = flugzeugAlias @ ''.sitzplaetze'' then
        (let ss = filter (\<lambda>s. sr_flugzeug_id s = r_id r) (sitzplaetze d)
         in if fst j = InnerJoin \<and> ss = [] then None
            else Some (f\<lparr>f_sitzplaetze := Some (map sitzplatz_of_row ss)\<rparr>))
      else Some f)"

fun join_all :: "db \<Rightarrow> (join_type \<times> string \<times> string) list \<Rightarrow> flugzeug_row \<Rightarrow> Flugzeug \<Rightarrow> Flugzeug option" where
  "join_all d [] r f = Some f"
| "join_all d (j # js) r f =
     (case join_one d j r f of None \<Rightarrow> None | Some f' \<Rightarrow> join_all d js r f')"

definition hydrate :: "db \<Rightarrow> select_query \<Rightarrow> Flugzeug list" where
  "hydrate d q = List.map_filter (\<lambda>r. join_all d (q_joins q) r (flugzeug_of_row r)) (flugzeuge d)"

definition getMany :: "engine \<Rightarrow> select_query \<Rightarrow> db \<Rightarrow> Flugzeug list" where
  "getMany sat q d =
     filter (\<lambda>f. list_all (\<lambda>w. sat (snd w) (q_parameters q) f) (q_wheres q)) (hydrate d q)"

text \<open>
  The comparison of the primary key with a bound number needs no engine: it is
  evaluated here, for the one condition \<open>buildId\<close> sets.
\<close>

definition id_condition :: engine where
  "id_condition condition ps f =
     (condition = flugzeugAlias @ ''.id = :id'' \<and>
      (case (map_of ps ''id'', f_id f) of
         (Some (JNum n), Some i) \<Rightarrow> n = of_int i
       | _ \<Rightarrow> False))"

definition getOne :: "select_query \<Rightarrow> db \<Rightarrow> Flugzeug option" where
  "getOne q d = (case getMany id_condition q d of [] \<Rightarrow> None | f # _ \<Rightarrow> Some f)"

text \<open>
  What a query by identifier hydrates from an aircraft row and its model row: the model
  attached, and the seats of the aircraft when they are joined.
\<close>

definition loaded :: "db \<Rightarrow> bool \<Rightarrow> flugzeug_row \<Rightarrow> modell_row \<Rightarrow> Flugzeug" where
  "loaded d mit r m =
     (flugzeug_of_row r)
       \<lparr>f_modell := Some (modell_of_row m),
        f_sitzplaetze :=
          (if mit
           then Some (map sitzplatz_of_row (filter (\<lambda>s. sr_flugzeug_id s = r_id r) (sitzplaetze d)))
           else None)\<rparr>"

section \<open>Read service\<close>

definition findById :: "db \<Rightarrow> int \<Rightarrow> bool \<Rightarrow> error + Flugzeug" where
  "findById d ident mitSitzplaetze =
     (case getOne (buildId ident mitSitzplaetze) d of
        None \<Rightarrow> Inl (NotFoundException (KeinFlugzeugMitId (Some ident)))
      | Some flugzeug \<Rightarrow> Inr flugzeug)"

text \<open>\<open>#checkKeys\<close>: the loop over the keys clears the flag at every key it rejects.\<close>

definition checkKeys :: "string list \<Rightarrow> string list \<Rightarrow> bool" where
  "checkKeys flugzeugProps keys =
     foldl (\<lambda>validKeys key.
              if key \<notin> set flugzeugProps \<and> key \<noteq> ''javascript'' \<and> key \<noteq> ''typescript''
              then False else validKeys)
       True keys"

definition find_flugzeuge ::
  "engine \<Rightarrow> string list \<Rightarrow> string \<Rightarrow> db \<Rightarrow> (string \<times> jsval) list option \<Rightarrow> error + Flugzeug list" where
  "find_flugzeuge sat flugzeugProps dbType d suchkriterien =
     (case suchkriterien of
        None \<Rightarrow> Inr (getMany sat (build dbType []) d)
      | Some sk \<Rightarrow>
          (let keys = map fst sk in
           if length keys = 0 then Inr (getMany sat (build dbType sk) d)
           else if \<not> checkKeys flugzeugProps keys
           then Inl (NotFoundException UngueltigeSuchkriterien)
           else (let flugzeuge = getMany sat (build dbType sk) d in
                 if length flugzeuge = 0
                 then Inl (NotFoundException (KeineFlugzeugeGefunden sk))
                 else Inr flugzeuge)))"

section \<open>Write service\<close>

definition VERSION_PATTERN :: "item list" where
  "VERSION_PATTERN = [Once (Lit dq), Rep Digit 1 3, Once (Lit dq)]"

text \<open>
  \<open>#validateUpdate\<close>. The comparison \<open>version < versionDb\<close> is false when either side is
  not a number.
\<close>

definition validateUpdate :: "db \<Rightarrow> Flugzeug \<Rightarrow> int \<Rightarrow> string \<Rightarrow> error + Flugzeug" where
  "validateUpdate d flugzeug ident versionStr =
     (if \<not> test VERSION_PATTERN versionStr then Inl (VersionInvalidException versionStr)
      else
        (let version = parseInt (slice versionStr 1 (- 1)) in
         case findById d ident False of
           Inl e \<Rightarrow> Inl e
         | Inr flugzeugDb \<Rightarrow>
             (case (version, f_version flugzeugDb) of
                (Some v, Some versionDb) \<Rightarrow>
                  if v < versionDb then Inl (VersionOutdatedException v) else Inr flugzeugDb
              | _ \<Rightarrow> Inr flugzeugDb)))"

text \<open>
  \<open>Repository.merge\<close> copies every property that is defined in the source object onto
  the target entity and leaves the others as they are. A model given in the source is
  merged into the target's model in the same way; a list of seats given in the source
  takes the place of the target's.
\<close>

definition or_else :: "'a option \<Rightarrow> 'a option \<Rightarrow> 'a option" where
  "or_else x y = (case x of None \<Rightarrow> y | Some v \<Rightarrow> Some v)"

definition merge_modell :: "Modell option \<Rightarrow> Modell \<Rightarrow> Modell" where
  "merge_modell into src =
     (case into of None \<Rightarrow> src
      | Some m \<Rightarrow> \<lparr>m_id = or_else (m_id src) (m_id m), m_modell = m_modell src\<rparr>)"

definition merge :: "Flugzeug \<Rightarrow> Flugzeug \<Rightarrow> Flugzeug" where
  "merge into src =
     \<lparr>f_id = or_else (f_id src) (f_id into),
      f_version = or_else (f_version src) (f_version into),
      f_preis = f_preis src,
      f_einsatzbereit = or_else (f_einsatzbereit src) (f_einsatzbereit into),
      f_baujahr = or_else (f_baujahr src) (f_baujahr into),
      f_modell = (case f_modell src of None \<Rightarrow> f_modell into
                  | Some m \<Rightarrow> Some (merge_modell (f_modell into) m)),
      f_sitzplaetze = or_else (f_sitzplaetze src) (f_sitzplaetze into),
      f_erzeugt = or_else (f_erzeugt src) (f_erzeugt into),
      f_aktualisiert = or_else (f_aktualisiert src) (f_aktualisiert into)\<rparr>"

text \<open>
  Modelled from the spec: the entity declaration with its version column is not among the
  sources. The version starts at 0 and the storage increments it with every update
  statement it executes on the row.
\<close>

definition initial_version :: int where
  "initial_version = 0"

definition next_version :: "int \<Rightarrow> int" where
  "next_version v = v + 1"

text \<open>
  \<open>Repository.save\<close> of an entity. With the identifier of a stored row it compares the
  entity with the row column by column; a column that is undefined in the entity is left
  out. When no column differs, no statement is issued: the row stays as it is, version
  included. Otherwise the columns that differ are written, and the storage assigns the
  next version unless the version is itself among them. Without a stored row it inserts
  one (under the given identifier, or a fresh one). A model or a list of seats that the
  entity carries is written through to the rows with the same identifiers. The saved
  entity comes back with the version the row has afterwards.
\<close>

definition column_differs :: "'a option \<Rightarrow> 'a option \<Rightarrow> bool" where
  "column_differs entityValue databaseValue =
     (case entityValue of None \<Rightarrow> False | Some v \<Rightarrow> databaseValue \<noteq> Some v)"

definition has_changes :: "Flugzeug \<Rightarrow> flugzeug_row \<Rightarrow> bool" where
  "has_changes f r =
     (column_differs (f_version f) (Some (r_version r)) \<or>
      column_differs (f_einsatzbereit f) (r_einsatzbereit r) \<or>
      column_differs (f_baujahr f) (r_baujahr r) \<or>
      column_differs (f_erzeugt f) (r_erzeugt r) \<or>
      column_differs (f_aktualisiert f) (r_aktualisiert r) \<or>
      f_preis f \<noteq> r_preis r)"

definition updated_row :: "Flugzeug \<Rightarrow> flugzeug_row \<Rightarrow> flugzeug_row" where
  "updated_row f r =
     \<lparr>r_id = r_id r,
      r_version = (case f_version f of
                     None \<Rightarrow> next_version (r_version r)
                   | Some v \<Rightarrow> if v = r_version r then next_version (r_version r) else v),
      r_preis = f_preis f,
      r_einsatzbereit = or_else (f_einsatzbereit f) (r_einsatzbereit r),
      r_baujahr = or_else (f_baujahr f) (r_baujahr r),
      r_erzeugt = or_else (f_erzeugt f) (r_erzeugt r),
      r_aktualisiert = or_else (f_aktualisiert f) (r_aktualisiert r)\<rparr>"

definition save_modell :: "Modell option \<Rightarrow> modell_row list \<Rightarrow> modell_row list" where
  "save_modell mo rows =
     (case mo of None \<Rightarrow> rows
      | Some m \<Rightarrow> map (\<lambda>r. if Some (mr_id r) = m_id m then r\<lparr>mr_modell := m_modell m\<rparr> else r) rows)"

definition save_sitzplatz :: "Sitzplatz \<Rightarrow> sitzplatz_row list \<Rightarrow> sitzplatz_row list" where
  "save_sitzplatz s rows =
     map (\<lambda>r. if Some (sr_id r) = s_id s then r\<lparr>sr_sitzplatzklasse := s_sitzplatzklasse s\<rparr> else r) rows"

definition save_sitzplaetze :: "Sitzplatz list option \<Rightarrow> sitzplatz_row list \<Rightarrow> sitzplatz_row list" where
  "save_sitzplaetze so rows = (case so of None \<Rightarrow> rows | Some ss \<Rightarrow> foldr save_sitzplatz ss rows)"

definition fresh_id :: "flugzeug_row list \<Rightarrow> int" where
  "fresh_id rows = foldl max 0 (map r_id rows) + 1"

definition row_of_flugzeug :: "int \<Rightarrow> int \<Rightarrow> Flugzeug \<Rightarrow> flugzeug_row" where
  "row_of_flugzeug ident version f =
     \<lparr>r_id = ident, r_version = version, r_preis = f_preis f,
      r_einsatzbereit = f_einsatzbereit f, r_baujahr = f_baujahr f,
      r_erzeugt = f_erzeugt f, r_aktualisiert = f_aktualisiert f\<rparr>"

definition save :: "db \<Rightarrow> Flugzeug \<Rightarrow> Flugzeug \<times> db" where
  "save d f =
     (let stored = (case f_id f of None \<Rightarrow> None
                    | Some i \<Rightarrow> List.find (\<lambda>r. r_id r = i) (flugzeuge d));
          ident = (case f_id f of None \<Rightarrow> fresh_id (flugzeuge d) | Some i \<Rightarrow> i);
          written = (case stored of None \<Rightarrow> True | Some r \<Rightarrow> has_changes f r);
          row = (case stored of
                   None \<Rightarrow> row_of_flugzeug ident initial_version f
                 | Some r \<Rightarrow> if has_changes f r then updated_row f r else r);
          rows = (case stored of
                    None \<Rightarrow> flugzeuge d @ [row]
                  | Some r \<Rightarrow>
                      if has_changes f r
                      then map (\<lambda>x. if r_id x = ident then row else x) (flugzeuge d)
                      else flugzeuge d)
      in (f\<lparr>f_id := Some ident, f_version := Some (r_version row)\<rparr>,
          d\<lparr>flugzeuge := rows,
            modelle := save_modell (f_modell f) (modelle d),
            sitzplaetze := save_sitzplaetze (f_sitzplaetze f) (sitzplaetze d),
            journal := journal d @ (if written then [SaveFlugzeug ident] else [])\<rparr>))"

text \<open>
  \<open>update\<close>. What \<open>#validateUpdate\<close> returns is the entity \<open>findById\<close> hydrated, an
  instance of \<open>Flugzeug\<close>, so the early return for another kind of result is never taken.
\<close>

definition update :: "db \<Rightarrow> int option \<Rightarrow> Flugzeug \<Rightarrow> string \<Rightarrow> error + (int option \<times> db)" where
  "update d ident flugzeug version =
     (case ident of
        None \<Rightarrow> Inl (NotFoundException (KeinFlugzeugMitId None))
      | Some i \<Rightarrow>
          (case validateUpdate d flugzeug i version of
             Inl e \<Rightarrow> Inl e
           | Inr flugzeugNeu \<Rightarrow>
               (let merged = merge flugzeugNeu flugzeug;
                    saved = save d merged
                in Inr (f_version (fst saved), snd saved))))"

text \<open>
  A statement can fail in the storage (a constraint, the connection): \<open>faults\<close> says
  which statements do. A failed statement changes nothing and raises its error.
\<close>

type_synonym faults = "stmt \<Rightarrow> bool"

text \<open>
  The transactional entity manager. \<open>delete(target, id)\<close> removes the rows of the target
  table with that primary key and reports how many it removed; it refuses an undefined
  key.
\<close>

datatype target = ModellTable | SitzplatzTable | FlugzeugTable

record DeleteResult =
  affected :: "nat option"

definition delete_stmt :: "target \<Rightarrow> int \<Rightarrow> stmt" where
  "delete_stmt t i =
     (case t of ModellTable \<Rightarrow> DeleteModell i | SitzplatzTable \<Rightarrow> DeleteSitzplatz i
      | FlugzeugTable \<Rightarrow> DeleteFlugzeug i)"

definition tm_delete :: "faults \<Rightarrow> target \<Rightarrow> int option \<Rightarrow> db \<Rightarrow> (error + DeleteResult) \<times> db" where
  "tm_delete faults t key d =
     (case key of
        None \<Rightarrow>
          (Inl (PersistenceFailure ''Empty criteria(s) are not allowed for the delete method.''), d)
      | Some i \<Rightarrow>
          if faults (delete_stmt t i) then (Inl (QueryFailedError (delete_stmt t i)), d)
          else
            (case t of
               ModellTable \<Rightarrow>
                 (Inr \<lparr>affected = Some (length (filter (\<lambda>r. mr_id r = i) (modelle d)))\<rparr>,
                  d\<lparr>modelle := filter (\<lambda>r. mr_id r \<noteq> i) (modelle d),
                    journal := journal d @ [DeleteModell i]\<rparr>)
             | SitzplatzTable \<Rightarrow>
                 (Inr \<lparr>affected = Some (length (filter (\<lambda>r. sr_id r = i) (sitzplaetze d)))\<rparr>,
                  d\<lparr>sitzplaetze := filter (\<lambda>r. sr_id r \<noteq> i) (sitzplaetze d),
                    journal := journal d @ [DeleteSitzplatz i]\<rparr>)
             | FlugzeugTable \<Rightarrow>
                 (Inr \<lparr>affected = Some (length (filter (\<lambda>r. r_id r = i) (flugzeuge d)))\<rparr>,
                  d\<lparr>flugzeuge := filter (\<lambda>r. r_id r \<noteq> i) (flugzeuge d),
                    journal := journal d @ [DeleteFlugzeug i]\<rparr>)))"

text \<open>
  \<open>manager.transaction(work)\<close> starts a transaction and runs the work in it. When the
  work returns, the transaction is committed: the tables are as the work left them. When
  the work raises an error, the transaction is rolled back, the tables are again what
  they were at its start, and the error is raised to the caller. The journal keeps what
  was executed in either case.
\<close>

definition transaction :: "db \<Rightarrow> (db \<Rightarrow> (error + 'a) \<times> db) \<Rightarrow> (error + 'a) \<times> db" where
  "transaction d work =
     (let res = work (d\<lparr>journal := journal d @ [StartTransaction]\<rparr>)
      in case fst res of
           Inl e \<Rightarrow> (Inl e, d\<lparr>journal := journal (snd res) @ [Rollback]\<rparr>)
         | Inr r \<Rightarrow> (Inr r, (snd res)\<lparr>journal := journal (snd res) @ [Commit]\<rparr>))"

text \<open>The loop of \<open>delete\<close> over the seats of the aircraft; an error ends it.\<close>

fun delete_sitzplaetze :: "faults \<Rightarrow> Sitzplatz list \<Rightarrow> db \<Rightarrow> (error + unit) \<times> db" where
  "delete_sitzplaetze faults [] d = (Inr (), d)"
| "delete_sitzplaetze faults (sitzplatz # rest) d =
     (let res = tm_delete faults SitzplatzTable (s_id sitzplatz) d
      in case fst res of
           Inl e \<Rightarrow> (Inl e, snd res)
         | Inr _ \<Rightarrow> delete_sitzplaetze faults rest (snd res))"

text \<open>The work \<open>delete\<close> runs in its transaction; its result is the last \<open>deleteResult\<close>.\<close>

definition delete_work :: "faults \<Rightarrow> Flugzeug \<Rightarrow> int \<Rightarrow> db \<Rightarrow> (error + DeleteResult) \<times> db" where
  "delete_work faults flugzeug ident d =
     (let modellId = (case f_modell flugzeug of None \<Rightarrow> None | Some m \<Rightarrow> m_id m);
          res1 = (if modellId \<noteq> None
                  then map_prod (map_sum id (\<lambda>_. ())) id (tm_delete faults ModellTable modellId d)
                  else (Inr (), d))
      in case fst res1 of
           Inl e \<Rightarrow> (Inl e, snd res1)
         | Inr _ \<Rightarrow>
             (let sitzplaetze = (case f_sitzplaetze flugzeug of None \<Rightarrow> [] | Some ss \<Rightarrow> ss);
                  res2 = delete_sitzplaetze faults sitzplaetze (snd res1)
              in case fst res2 of
                   Inl e \<Rightarrow> (Inl e, snd res2)
                 | Inr _ \<Rightarrow> tm_delete faults FlugzeugTable (Some ident) (snd res2)))"

definition delete :: "faults \<Rightarrow> db \<Rightarrow> int \<Rightarrow> (error + bool) \<times> db" where
  "delete faults d ident =
     (case findById d ident True of
        Inl e \<Rightarrow> (Inl e, d)
      | Inr flugzeug \<Rightarrow>
          (let res = transaction d (delete_work faults flugzeug ident)
           in case fst res of
                Inl e \<Rightarrow> (Inl e, snd res)
              | Inr deleteResult \<Rightarrow>
                  (Inr (case affected deleteResult of None \<Rightarrow> False | Some n \<Rightarrow> 0 < n),
                   snd res)))"

section \<open>Transport adapters\<close>

text \<open>
  The update payload of the REST controller and of the GraphQL resolver, and the entity
  both build from it (\<open>#flugzeugDtoOhneRefToFlugzeug\<close>, \<open>#flugzeugUpdateDtoToFlugzeug\<close>):
  scalar fields only, and the time of the request.
\<close>

record FlugzeugDtoOhneRef =
  dto_preis :: rat
  dto_einsatzbereit :: "bool option"
  dto_baujahr :: "string option"

definition flugzeugDtoOhneRefToFlugzeug :: "FlugzeugDtoOhneRef \<Rightarrow> string \<Rightarrow> Flugzeug" where
  "flugzeugDtoOhneRefToFlugzeug flugzeugDTO now =
     \<lparr>f_id = None, f_version = None, f_preis = dto_preis flugzeugDTO,
      f_einsatzbereit = dto_einsatzbereit flugzeugDTO, f_baujahr = dto_baujahr flugzeugDTO,
      f_modell = None, f_sitzplaetze = None, f_erzeugt = None, f_aktualisiert = Some now\<rparr>"

section \<open>Sample data\<close>

definition engine_false :: engine where
  "engine_false condition ps f = False"

definition engine_true :: engine where
  "engine_true condition ps f = True"

definition sample_db :: db where
  "sample_db =
     \<lparr>flugzeuge =
        [\<lparr>r_id = 1, r_version = 0, r_preis = 100, r_einsatzbereit = Some True,
          r_baujahr = Some ''2022-02-28'', r_erzeugt = Some ''2022-03-01'',
          r_aktualisiert = Some ''2022-03-01''\<rparr>,
         \<lparr>r_id = 2, r_version = 5, r_preis = 250, r_einsatzbereit = Some False,
          r_baujahr = None, r_erzeugt = Some ''2022-03-02'',
          r_aktualisiert = Some ''2022-03-05''\<rparr>],
      modelle =
        [\<lparr>mr_id = 10, mr_modell = ''Alpha'', mr_flugzeug_id = 1\<rparr>,
         \<lparr>mr_id = 20, mr_modell = ''Beta'', mr_flugzeug_id = 2\<rparr>],
      sitzplaetze =
        [\<lparr>sr_id = 100, sr_sitzplatzklasse = ''Klasse 1'', sr_flugzeug_id = 1\<rparr>,
         \<lparr>sr_id = 101, sr_sitzplatzklasse = ''Klasse 2'', sr_flugzeug_id = 1\<rparr>,
         \<lparr>sr_id = 200, sr_sitzplatzklasse = ''Klasse 1'', sr_flugzeug_id = 2\<rparr>],
      journal = []\<rparr>"

definition sample_dto :: FlugzeugDtoOhneRef where
  "sample_dto = \<lparr>dto_preis = 120, dto_einsatzbereit = None, dto_baujahr = Some ''2023-01-31''\<rparr>"

definition sample_patch :: Flugzeug where
  "sample_patch = flugzeugDtoOhneRefToFlugzeug sample_dto ''2023-02-01''"


definition no_faults :: faults where
  "no_faults st = False"

definition sample_fault :: faults where
  "sample_fault st = (st = DeleteSitzplatz 101)"

definition sample_kriterien :: "(string \<times> jsval) list" where
  "sample_kriterien = [(''preis'', JNum 100), (''modell'', JStr ''a''), (''einsatzbereit'', JBool True)]"

section \<open>Aliases\<close>

lemma flugzeugAlias_eq: "flugzeugAlias = ''flugzeug''"
  unfolding flugzeugAlias_def by code_simp

lemma modellAlias_eq: "modellAlias = ''modell''"
  unfolding modellAlias_def by code_simp

lemma abbildungAlias_eq: "abbildungAlias = ''sitzplatz''"
  unfolding abbildungAlias_def by code_simp

section \<open>Version tokens\<close>

lemma VERSION_PATTERN_unfold:
  "test VERSION_PATTERN s \<longleftrightarrow>
     (case s of
        c0 # c1 # c2 # r2 \<Rightarrow>
          c0 = dq \<and> is_digit c1 \<and>
          (c2 = dq \<or>
           (is_digit c2 \<and>
            (case r2 of [] \<Rightarrow> False
             | c3 # r3 \<Rightarrow>
                 c3 = dq \<or> (is_digit c3 \<and> (case r3 of [] \<Rightarrow> False | c4 # _ \<Rightarrow> c4 = dq)))))
      | _ \<Rightarrow> False)"
  by (auto simp add: test_def VERSION_PATTERN_def split: list.splits)

lemma dq_not_digit: "\<not> is_digit dq"
  by (simp add: is_digit_def dq_def)

text \<open>
  What the pattern accepts: a quote, one to three digits, a quote, and then anything.
\<close>

lemma VERSION_PATTERN_iff:
  "test VERSION_PATTERN s \<longleftrightarrow>
     (\<exists>ds rest. s = dq # ds @ dq # rest \<and> ds \<noteq> [] \<and> length ds \<le> 3 \<and> list_all is_digit ds)"
proof
  assume "test VERSION_PATTERN s"
  then obtain c1 c2 r2 where s: "s = dq # c1 # c2 # r2" and d1: "is_digit c1"
    and more: "c2 = dq \<or>
      (is_digit c2 \<and>
       (case r2 of [] \<Rightarrow> False
        | c3 # r3 \<Rightarrow> c3 = dq \<or> (is_digit c3 \<and> (case r3 of [] \<Rightarrow> False | c4 # _ \<Rightarrow> c4 = dq))))"
    by (auto simp: VERSION_PATTERN_unfold split: list.splits)
  then consider (one) "c2 = dq"
    | (two) r3 where "is_digit c2" "r2 = dq # r3"
    | (three) c3 r4 where "is_digit c2" "is_digit c3" "r2 = c3 # dq # r4"
    by (auto split: list.splits)
  then show "\<exists>ds rest. s = dq # ds @ dq # rest \<and> ds \<noteq> [] \<and> length ds \<le> 3 \<and> list_all is_digit ds"
  proof cases
    case one
    with s d1 show ?thesis by (intro exI [of _ "[c1]"] exI [of _ r2]) simp
  next
    case two
    with s d1 show ?thesis by (intro exI [of _ "[c1, c2]"] exI [of _ r3]) simp
  next
    case three
    with s d1 show ?thesis by (intro exI [of _ "[c1, c2, c3]"] exI [of _ r4]) simp
  qed
next
  assume "\<exists>ds rest. s = dq # ds @ dq # rest \<and> ds \<noteq> [] \<and> length ds \<le> 3 \<and> list_all is_digit ds"
  then obtain ds rest where s: "s = dq # ds @ dq # rest" and ne: "ds \<noteq> []"
    and le: "length ds \<le> 3" and dg: "list_all is_digit ds"
    by blast
  from ne le consider a where "ds = [a]" | a b where "ds = [a, b]" | a b c where "ds = [a, b, c]"
    by (cases ds; cases "tl ds"; cases "tl (tl ds)"; cases "tl (tl (tl ds))") auto
  then show "test VERSION_PATTERN s"
    using s dg by cases (auto simp: VERSION_PATTERN_unfold dq_not_digit)
qed

lemma digit_not_space: "is_digit c \<Longrightarrow> \<not> is_space c"
  by (auto simp: is_digit_def is_space_def)

lemma digit_not_sign: "is_digit c \<Longrightarrow> c \<noteq> CHR ''-'' \<and> c \<noteq> CHR ''+''"
  by (auto simp: is_digit_def)

text \<open>A token that the pattern accepts always parses to a number.\<close>

lemma parse_version_Some:
  assumes "test VERSION_PATTERN s"
  shows "\<exists>v. parseInt (slice s 1 (- 1)) = Some v"
proof -
  from assms obtain c1 c2 r2 where s: "s = dq # c1 # c2 # r2" and d1: "is_digit c1"
    by (auto simp: VERSION_PATTERN_unfold split: list.splits)
  have sl: "slice s 1 (- 1) = c1 # take (length r2) (c2 # r2)"
    by (simp add: slice_def s Let_def nat_add_distrib)
  show ?thesis
    using d1 digit_not_space [OF d1] digit_not_sign [OF d1]
    by (simp add: sl parseInt_def Let_def)
qed

section \<open>Looking an aircraft up by its identifier\<close>

lemma set_map_filter:
  "set (List.map_filter g xs) = {y. \<exists>x \<in> set xs. g x = Some y}"
  by (induction xs) (auto split: option.splits)

lemma join_one_id: "join_one d j r f = Some f' \<Longrightarrow> f_id f' = f_id f"
  by (auto simp: join_one_def Let_def split: if_splits option.splits)

lemma join_all_id: "join_all d js r f = Some f' \<Longrightarrow> f_id f' = f_id f"
  by (induction js arbitrary: f) (auto split: option.splits dest: join_one_id)

lemma hydrate_id:
  "f \<in> set (hydrate d q) \<Longrightarrow> \<exists>r \<in> set (flugzeuge d). f_id f = Some (r_id r)"
  by (auto simp: hydrate_def set_map_filter flugzeug_of_row_def dest!: join_all_id)

lemma buildId_eq:
  "buildId i mit =
     \<lparr>q_alias = ''flugzeug'',
      q_joins = (InnerJoin, ''flugzeug.modell'', ''modell'') #
                (if mit then [(LeftJoin, ''flugzeug.sitzplaetze'', ''sitzplatz'')] else []),
      q_wheres = [(SimpleWhere, ''flugzeug.id = :id'')],
      q_parameters = [(''id'', JNum (of_int i))]\<rparr>"
  by (simp add: buildId_def createQueryBuilder_def innerJoinAndSelect_def leftJoinAndSelect_def
      where_qb_def flugzeugAlias_eq modellAlias_eq abbildungAlias_eq)

lemma getMany_buildId:
  "getMany id_condition (buildId i mit) d =
     filter (\<lambda>f. f_id f = Some i) (hydrate d (buildId i mit))"
  by (auto simp: getMany_def buildId_eq id_condition_def flugzeugAlias_eq
      intro!: filter_cong split: option.splits)

lemma join_all_buildId:
  "join_all d (q_joins (buildId i mit)) r (flugzeug_of_row r) =
     (case List.find (\<lambda>m. mr_flugzeug_id m = r_id r) (modelle d) of
        None \<Rightarrow> None
      | Some m \<Rightarrow> Some (loaded d mit r m))"
  by (simp add: buildId_eq join_one_def flugzeugAlias_eq loaded_def flugzeug_of_row_def
      split: option.splits)

text \<open>An aircraft that \<open>findById\<close> returns is a stored row with its model row.\<close>

lemma findById_Inr_D:
  assumes "findById d i mit = Inr f"
  shows "\<exists>r m. r \<in> set (flugzeuge d) \<and> r_id r = i \<and>
           List.find (\<lambda>m. mr_flugzeug_id m = i) (modelle d) = Some m \<and> f = loaded d mit r m"
proof -
  from assms have "f \<in> set (getMany id_condition (buildId i mit) d)"
    by (auto simp: findById_def getOne_def split: list.splits)
  then have mem: "f \<in> set (hydrate d (buildId i mit))" and fid: "f_id f = Some i"
    by (simp_all add: getMany_buildId)
  from mem obtain r where r: "r \<in> set (flugzeuge d)"
    and j: "join_all d (q_joins (buildId i mit)) r (flugzeug_of_row r) = Some f"
    by (auto simp: hydrate_def set_map_filter)
  from j fid have "r_id r = i"
    by (auto simp: flugzeug_of_row_def dest!: join_all_id)
  with r j show ?thesis
    by (auto simp: join_all_buildId split: option.splits)
qed

text \<open>Without a row of that identifier \<open>findById\<close> raises NotFound.\<close>

lemma findById_absent:
  assumes "\<forall>r \<in> set (flugzeuge d). r_id r \<noteq> i"
  shows "findById d i mit = Inl (NotFoundException (KeinFlugzeugMitId (Some i)))"
proof -
  have "filter (\<lambda>f. f_id f = Some i) (hydrate d (buildId i mit)) = []"
    using assms by (auto simp: filter_empty_conv dest!: hydrate_id)
  then show ?thesis
    by (simp add: findById_def getOne_def getMany_buildId)
qed

section \<open>Validation of the search keys\<close>

lemma checkKeys_iff:
  "checkKeys props keys \<longleftrightarrow>
     (\<forall>k \<in> set keys. k \<in> set props \<or> k = ''javascript'' \<or> k = ''typescript'')"
proof -
  have "foldl (\<lambda>validKeys key.
                 if key \<notin> set props \<and> key \<noteq> ''javascript'' \<and> key \<noteq> ''typescript''
                 then False else validKeys) b keys \<longleftrightarrow>
          (b \<and> (\<forall>k \<in> set keys. k \<in> set props \<or> k = ''javascript'' \<or> k = ''typescript''))" for b
    by (induction keys arbitrary: b) auto
  then show ?thesis by (simp add: checkKeys_def)
qed

section \<open>The query builder's queries\<close>

lemma build_no_criteria:
  "build t [] =
     \<lparr>q_alias = ''flugzeug'', q_joins = [(InnerJoin, ''flugzeug.modell'', ''modell'')],
      q_wheres = [], q_parameters = []\<rparr>"
  by (simp add: build_def createQueryBuilder_def innerJoinAndSelect_def flugzeugAlias_eq)

lemma getMany_no_wheres: "q_wheres q = [] \<Longrightarrow> getMany sat q d = hydrate d q"
  by (simp add: getMany_def)

lemma getMany_build_no_criteria: "getMany sat (build t []) d = hydrate d (build t [])"
  by (simp add: getMany_no_wheres build_no_criteria)

lemma hydrate_build_no_criteria:
  "hydrate d (build t []) =
     List.map_filter
       (\<lambda>r. case List.find (\<lambda>m. mr_flugzeug_id m = r_id r) (modelle d) of
               None \<Rightarrow> None
             | Some m \<Rightarrow> Some ((flugzeug_of_row r)\<lparr>f_modell := Some (modell_of_row m)\<rparr>))
       (flugzeuge d)"
proof -
  have "join_all d [(InnerJoin, ''flugzeug.modell'', ''modell'')] r (flugzeug_of_row r) =
          (case List.find (\<lambda>m. mr_flugzeug_id m = r_id r) (modelle d) of
             None \<Rightarrow> None
           | Some m \<Rightarrow> Some ((flugzeug_of_row r)\<lparr>f_modell := Some (modell_of_row m)\<rparr>))" for r
    by (simp add: join_one_def flugzeugAlias_eq split: option.splits)
  then show ?thesis
    by (simp add: hydrate_def build_no_criteria)
qed

section \<open>Searching without criteria\<close>

text \<open>
  C9. \<open>find({})\<close> and \<open>find(undefined)\<close> give the same result in every storage state and
  under every engine: the query has the join with the model and no condition, and the
  result is every aircraft that has a model, with the model attached.
\<close>

theorem find_empty_criteria_equals_find_undefined:
  "find_flugzeuge sat props t d (Some []) = find_flugzeuge sat props t d None \<and>
   find_flugzeuge sat props t d None = Inr (hydrate d (build t [])) \<and>
   q_wheres (build t []) = [] \<and>
   q_joins (build t []) = [(InnerJoin, ''flugzeug.modell'', ''modell'')] \<and>
   hydrate d (build t []) =
     List.map_filter
       (\<lambda>r. case List.find (\<lambda>m. mr_flugzeug_id m = r_id r) (modelle d) of
               None \<Rightarrow> None
             | Some m \<Rightarrow> Some ((flugzeug_of_row r)\<lparr>f_modell := Some (modell_of_row m)\<rparr>))
       (flugzeuge d)"
proof -
  have a: "find_flugzeuge sat props t d (Some []) = Inr (getMany sat (build t []) d)"
    by (simp add: find_flugzeuge_def)
  have b: "find_flugzeuge sat props t d None = Inr (getMany sat (build t []) d)"
    by (simp add: find_flugzeuge_def)
  have c: "q_wheres (build t []) = [] \<and>
           q_joins (build t []) = [(InnerJoin, ''flugzeug.modell'', ''modell'')]"
    by (simp add: build_no_criteria)
  from a b c show ?thesis
    using getMany_build_no_criteria [of sat t d] hydrate_build_no_criteria [of d t] by simp
qed

text \<open>
  C10. Without criteria (undefined, or an object with no key) \<open>find\<close> returns what the
  unfiltered query yields and never a NotFound error; on a storage without aircraft it
  returns the empty list.
\<close>

theorem find_without_criteria_never_not_found:
  "find_flugzeuge sat props t d None = Inr (getMany sat (build t []) d) \<and>
   find_flugzeuge sat props t d (Some []) = Inr (getMany sat (build t []) d) \<and>
   find_flugzeuge sat props t d None \<noteq> Inl (NotFoundException msg) \<and>
   find_flugzeuge sat props t d (Some []) \<noteq> Inl (NotFoundException msg) \<and>
   find_flugzeuge sat props t (d\<lparr>flugzeuge := []\<rparr>) None = Inr [] \<and>
   find_flugzeuge sat props t (d\<lparr>flugzeuge := []\<rparr>) (Some []) = Inr []"
  by (simp add: find_flugzeuge_def getMany_build_no_criteria hydrate_def)

section \<open>Searching with criteria\<close>

text \<open>
  C7. With at least one criterion and valid keys, a query that returns no row makes
  \<open>find\<close> fail with the NotFound error that carries the criteria; a successful \<open>find\<close>
  with criteria never returns the empty list.
\<close>

theorem find_with_criteria_no_rows_is_not_found:
  assumes "sk \<noteq> []" and "checkKeys props (map fst sk)"
  shows "(getMany sat (build t sk) d = [] \<longrightarrow>
            find_flugzeuge sat props t d (Some sk) =
              Inl (NotFoundException (KeineFlugzeugeGefunden sk))) \<and>
         (getMany sat (build t sk) d \<noteq> [] \<longrightarrow>
            find_flugzeuge sat props t d (Some sk) = Inr (getMany sat (build t sk) d)) \<and>
         find_flugzeuge sat props t d (Some sk) \<noteq> Inr []"
  using assms by (simp add: find_flugzeuge_def Let_def)


theorem find_with_criteria_no_rows_is_not_found_witness:
  "[(''einsatzbereit'', JBool True)] \<noteq> [] \<and>
   checkKeys flugzeugPropertyNames (map fst [(''einsatzbereit'', JBool True)]) \<and>
   getMany engine_false (build ''postgres'' [(''einsatzbereit'', JBool True)]) sample_db = [] \<and>
   find_flugzeuge engine_false flugzeugPropertyNames ''postgres'' sample_db
       (Some [(''einsatzbereit'', JBool True)]) =
     Inl (NotFoundException (KeineFlugzeugeGefunden [(''einsatzbereit'', JBool True)])) \<and>
   getMany engine_true (build ''postgres'' [(''einsatzbereit'', JBool True)]) sample_db \<noteq> [] \<and>
   find_flugzeuge engine_true flugzeugPropertyNames ''postgres'' sample_db
       (Some [(''einsatzbereit'', JBool True)]) =
     Inr (getMany engine_true (build ''postgres'' [(''einsatzbereit'', JBool True)]) sample_db)"
proof -
  let ?sk = "[(''einsatzbereit'', JBool True)]"
  have ne: "?sk \<noteq> []" by simp
  have ck: "checkKeys flugzeugPropertyNames (map fst ?sk)"
    by (simp add: checkKeys_def flugzeugPropertyNames_def)
  have w: "q_wheres (build ''postgres'' ?sk) = [(SimpleWhere, ''flugzeug.einsatzbereit = :einsatzbereit'')]"
    by (simp add: build_def build_step_def createQueryBuilder_def innerJoinAndSelect_def
        where_qb_def flugzeugAlias_eq)
  have none: "getMany engine_false (build ''postgres'' ?sk) sample_db = []"
    by (simp add: getMany_def w engine_false_def)
  have j: "q_joins (build ''postgres'' ?sk) = [(InnerJoin, ''flugzeug.modell'', ''modell'')]"
    by (simp add: build_def build_step_def createQueryBuilder_def innerJoinAndSelect_def
        where_qb_def flugzeugAlias_eq)
  have some: "getMany engine_true (build ''postgres'' ?sk) sample_db \<noteq> []"
    by (simp add: getMany_def w j engine_true_def hydrate_def sample_db_def join_one_def
        flugzeugAlias_eq)
  show ?thesis
    using find_with_criteria_no_rows_is_not_found [OF ne ck, of engine_false "''postgres''" sample_db]
      find_with_criteria_no_rows_is_not_found [OF ne ck, of engine_true "''postgres''" sample_db]
      ne ck none some
    by simp
qed

section \<open>The compiled query\<close>

lemma foldl_build_step:
  "foldl (build_step props) (q, False) keys =
     (q\<lparr>q_wheres := q_wheres q @ map (\<lambda>k. (AndWhere, ''flugzeug.'' @ k @ '' = :'' @ k)) keys,
        q_parameters := q_parameters q @
          map (\<lambda>k. (k, case map_of props k of None \<Rightarrow> JUndefined | Some v \<Rightarrow> v)) keys\<rparr>, False)"
  by (induction keys arbitrary: q) (simp_all add: build_step_def andWhere_def flugzeugAlias_eq)

lemma lookup_keys:
  assumes "distinct (map fst props)"
  shows "map (\<lambda>k. (k, case map_of props k of None \<Rightarrow> JUndefined | Some v \<Rightarrow> v)) (map fst props) = props"
proof -
  have "(case map_of props (fst kv) of None \<Rightarrow> JUndefined | Some v \<Rightarrow> v) = snd kv"
    if "kv \<in> set props" for kv
  proof -
    from that assms have "map_of props (fst kv) = Some (snd kv)" by simp
    then show ?thesis by simp
  qed
  then show ?thesis
    by (simp add: map_idI)
qed

text \<open>
  C6. For criteria that hold a model name as a string, the compiled query joins the model
  and has the pattern \<open>%name%\<close> on the model's name column as its first condition, set by
  \<open>where\<close>, with \<open>ilike\<close> on postgres and \<open>like\<close> on every other engine; every other
  criterion follows as an equality added by \<open>andWhere\<close>. The conditions hold placeholders
  only, and the values are bound as parameters.
\<close>

theorem build_modell_criterion:
  assumes "distinct (map fst sk)" and "map_of sk ''modell'' = Some (JStr m)"
  shows "build t sk =
     \<lparr>q_alias = ''flugzeug'',
      q_joins = [(InnerJoin, ''flugzeug.modell'', ''modell'')],
      q_wheres =
        (SimpleWhere, ''modell.modell '' @ (if t = ''postgres'' then ''ilike'' else ''like'') @ '' :modell'') #
        map (\<lambda>kv. (AndWhere, ''flugzeug.'' @ fst kv @ '' = :'' @ fst kv))
          (filter (\<lambda>kv. fst kv \<noteq> ''modell'') sk),
      q_parameters = (''modell'', JStr (''%'' @ m @ ''%'')) # filter (\<lambda>kv. fst kv \<noteq> ''modell'') sk\<rparr>"
proof -
  let ?props = "filter (\<lambda>kv. fst kv \<noteq> ''modell'') sk"
  have d: "distinct (map fst ?props)"
    using assms(1) by (simp add: distinct_map_filter)
  show ?thesis
    using assms(2) lookup_keys [OF d]
    by (simp add: build_def Let_def foldl_build_step createQueryBuilder_def innerJoinAndSelect_def
        where_qb_def flugzeugAlias_eq modellAlias_eq comp_def)
qed

theorem build_modell_criterion_witness:
  "distinct (map fst sample_kriterien) \<and>
   map_of sample_kriterien ''modell'' = Some (JStr ''a'') \<and>
   build ''postgres'' sample_kriterien =
     \<lparr>q_alias = ''flugzeug'',
      q_joins = [(InnerJoin, ''flugzeug.modell'', ''modell'')],
      q_wheres = [(SimpleWhere, ''modell.modell ilike :modell''),
                  (AndWhere, ''flugzeug.preis = :preis''),
                  (AndWhere, ''flugzeug.einsatzbereit = :einsatzbereit'')],
      q_parameters = [(''modell'', JStr ''%a%''), (''preis'', JNum 100),
                      (''einsatzbereit'', JBool True)]\<rparr> \<and>
   q_wheres (build ''mysql'' sample_kriterien) =
     [(SimpleWhere, ''modell.modell like :modell''),
      (AndWhere, ''flugzeug.preis = :preis''),
      (AndWhere, ''flugzeug.einsatzbereit = :einsatzbereit'')]"
proof -
  have d: "distinct (map fst sample_kriterien)" by (simp add: sample_kriterien_def)
  have m: "map_of sample_kriterien ''modell'' = Some (JStr ''a'')" by (simp add: sample_kriterien_def)
  show ?thesis
    using build_modell_criterion [OF d m, of "''postgres''"] build_modell_criterion [OF d m, of "''mysql''"] d m
    by (simp add: sample_kriterien_def)
qed

section \<open>Optimistic locking\<close>

lemma loaded_fields:
  "f_id (loaded d mit r m) = Some (r_id r)"
  "f_version (loaded d mit r m) = Some (r_version r)"
  "f_modell (loaded d mit r m) = Some (modell_of_row m)"
  "f_sitzplaetze (loaded d True r m) =
     Some (map sitzplatz_of_row (filter (\<lambda>s. sr_flugzeug_id s = r_id r) (sitzplaetze d)))"
  "f_sitzplaetze (loaded d False r m) = None"
  by (simp_all add: loaded_def flugzeug_of_row_def)

lemma validateUpdate_cases:
  assumes "test VERSION_PATTERN tok" and "findById d i False = Inr f"
    and "parseInt (slice tok 1 (- 1)) = Some v" and "f_version f = Some vdb"
  shows "validateUpdate d p i tok = (if v < vdb then Inl (VersionOutdatedException v) else Inr f)"
  using assms by (simp add: validateUpdate_def)

text \<open>
  With an identifier, \<open>update\<close> fails with VersionInvalid exactly for the tokens the
  pattern does not accept.
\<close>

lemma update_version_invalid_iff:
  "update d (Some i) p tok = Inl (VersionInvalidException x) \<longleftrightarrow>
     (\<not> test VERSION_PATTERN tok \<and> x = tok)"
  by (auto simp: update_def validateUpdate_def findById_def Let_def
      split: sum.splits option.splits if_splits)

text \<open>
  C2. For a stored aircraft and a token that passes the pattern, \<open>update\<close> fails with
  VersionOutdated exactly when the number parsed from the token is less than the stored
  version; with an equal or a greater number the merged entity is saved.
\<close>

theorem update_version_outdated_iff:
  assumes "test VERSION_PATTERN tok" and "findById d i False = Inr f"
  shows "\<exists>v r. parseInt (slice tok 1 (- 1)) = Some v \<and> r \<in> set (flugzeuge d) \<and> r_id r = i \<and>
           f_version f = Some (r_version r) \<and>
           ((\<exists>x. update d (Some i) p tok = Inl (VersionOutdatedException x)) \<longleftrightarrow> v < r_version r) \<and>
           (v < r_version r \<longrightarrow> update d (Some i) p tok = Inl (VersionOutdatedException v)) \<and>
           (r_version r \<le> v \<longrightarrow>
              update d (Some i) p tok =
                Inr (f_version (fst (save d (merge f p))), snd (save d (merge f p))))"
proof -
  from parse_version_Some [OF assms(1)] obtain v where v: "parseInt (slice tok 1 (- 1)) = Some v" ..
  from findById_Inr_D [OF assms(2)] obtain r m where r: "r \<in> set (flugzeuge d)" "r_id r = i"
    and f: "f = loaded d False r m" by blast
  have fv: "f_version f = Some (r_version r)" by (simp add: f loaded_fields)
  have u: "update d (Some i) p tok =
             (if v < r_version r then Inl (VersionOutdatedException v)
              else Inr (f_version (fst (save d (merge f p))), snd (save d (merge f p))))"
    by (simp add: update_def validateUpdate_cases [OF assms v fv] Let_def)
  show ?thesis
    using v r fv u by (intro exI [of _ v] exI [of _ r]) auto
qed

theorem update_version_outdated_iff_witness:
  "test VERSION_PATTERN (dq # ''0'' @ [dq]) \<and>
   test VERSION_PATTERN (dq # ''7'' @ [dq]) \<and>
   findById sample_db 2 False =
     Inr (loaded sample_db False (flugzeuge sample_db ! 1) (modelle sample_db ! 1)) \<and>
   update sample_db (Some 2) sample_patch (dq # ''0'' @ [dq]) = Inl (VersionOutdatedException 0) \<and>
   map_sum id fst (update sample_db (Some 2) sample_patch (dq # ''7'' @ [dq])) = Inr (Some 6)"
proof -
  let ?f = "loaded sample_db False (flugzeuge sample_db ! 1) (modelle sample_db ! 1)"
  have t0: "test VERSION_PATTERN (dq # ''0'' @ [dq])" by code_simp
  have t7: "test VERSION_PATTERN (dq # ''7'' @ [dq])" by code_simp
  have fb: "findById sample_db 2 False = Inr ?f" by code_simp
  have p0: "parseInt (slice (dq # ''0'' @ [dq]) 1 (- 1)) = Some 0" by code_simp
  have p7: "parseInt (slice (dq # ''7'' @ [dq]) 1 (- 1)) = Some 7" by code_simp
  have ver: "r_version r = 5" if "r \<in> set (flugzeuge sample_db)" "r_id r = 2" for r
    using that by (auto simp: sample_db_def)
  have sv: "f_version (fst (save sample_db (merge ?f sample_patch))) = Some 6" by code_simp
  from update_version_outdated_iff [OF t0 fb, of sample_patch] p0 ver
  have a: "update sample_db (Some 2) sample_patch (dq # ''0'' @ [dq]) = Inl (VersionOutdatedException 0)"
    by auto
  from update_version_outdated_iff [OF t7 fb, of sample_patch] p7 ver sv
  have b: "map_sum id fst (update sample_db (Some 2) sample_patch (dq # ''7'' @ [dq])) = Inr (Some 6)"
    by auto
  from t0 t7 fb a b show ?thesis by simp
qed

section \<open>Cascading deletion\<close>

lemma find_Some_D: "List.find P xs = Some x \<Longrightarrow> x \<in> set xs \<and> P x"
  by (auto simp: find_Some_iff)

lemma distinct_key_eq:
  "distinct (map k xs) \<Longrightarrow> x \<in> set xs \<Longrightarrow> y \<in> set xs \<Longrightarrow> k x = k y \<Longrightarrow> x = y"
  by (meson distinct_map inj_onD)


lemma filter_key_distinct:
  "distinct (map k xs) \<Longrightarrow> x \<in> set xs \<Longrightarrow> filter (\<lambda>y. k y = k x) xs = [x]"
  by (induction xs) (auto simp: rev_image_eqI filter_empty_conv)

text \<open>
  The loop over the seats executes the statements up to the first one that fails, and
  raises that statement's error.
\<close>

lemma delete_sitzplaetze_rows:
  "delete_sitzplaetze faults (map sitzplatz_of_row ss) d =
     (if list_all (\<lambda>s. \<not> faults (DeleteSitzplatz (sr_id s))) ss then Inr ()
      else Inl (QueryFailedError (DeleteSitzplatz
             (sr_id (hd (dropWhile (\<lambda>s. \<not> faults (DeleteSitzplatz (sr_id s))) ss))))),
      d\<lparr>sitzplaetze :=
          filter (\<lambda>r. sr_id r \<notin> set (map sr_id (takeWhile (\<lambda>s. \<not> faults (DeleteSitzplatz (sr_id s))) ss)))
            (sitzplaetze d),
        journal :=
          journal d @
          map (\<lambda>s. DeleteSitzplatz (sr_id s)) (takeWhile (\<lambda>s. \<not> faults (DeleteSitzplatz (sr_id s))) ss)\<rparr>)"
proof (induction ss arbitrary: d)
  case Nil
  then show ?case by simp
next
  case (Cons s ss)
  have sid: "s_id (sitzplatz_of_row s) = Some (sr_id s)" by (simp add: sitzplatz_of_row_def)
  show ?case
  proof (cases "faults (DeleteSitzplatz (sr_id s))")
    case True
    then show ?thesis
      by (simp add: tm_delete_def delete_stmt_def sid)
  next
    case False
    then show ?thesis
      by (simp add: tm_delete_def delete_stmt_def sid Cons.IH)
  qed
qed

lemma takeWhile_map_append_stop:
  "\<not> list_all (\<lambda>x. P (g x)) xs \<Longrightarrow>
     takeWhile P (map g xs @ ys) = map g (takeWhile (\<lambda>x. P (g x)) xs)"
  by (induction xs) auto

lemma dropWhile_map_append_stop:
  "\<not> list_all (\<lambda>x. P (g x)) xs \<Longrightarrow>
     hd (dropWhile P (map g xs @ ys)) = g (hd (dropWhile (\<lambda>x. P (g x)) xs))"
  by (induction xs) auto

lemma takeWhile_map_append_pass:
  "list_all (\<lambda>x. P (g x)) xs \<Longrightarrow> takeWhile P (map g xs @ ys) = map g xs @ takeWhile P ys"
  by (induction xs) auto

lemma dropWhile_map_append_pass:
  "list_all (\<lambda>x. P (g x)) xs \<Longrightarrow> dropWhile P (map g xs @ ys) = dropWhile P ys"
  by (induction xs) auto

lemma filter_own_modell:
  assumes "distinct (map mr_id ms)" "distinct (map mr_flugzeug_id ms)" "m \<in> set ms"
  shows "filter (\<lambda>r. mr_id r \<noteq> mr_id m) ms = filter (\<lambda>r. mr_flugzeug_id r \<noteq> mr_flugzeug_id m) ms"
proof (rule filter_cong [OF refl])
  fix r assume "r \<in> set ms"
  with assms show "(mr_id r \<noteq> mr_id m) = (mr_flugzeug_id r \<noteq> mr_flugzeug_id m)"
    by (metis distinct_key_eq)
qed

lemma filter_own_sitzplaetze:
  assumes "distinct (map sr_id ss)"
  shows "filter (\<lambda>r. sr_id r \<notin> set (map sr_id (filter (\<lambda>s. sr_flugzeug_id s = i) ss))) ss =
         filter (\<lambda>r. sr_flugzeug_id r \<noteq> i) ss"
proof (rule filter_cong [OF refl])
  fix r assume r: "r \<in> set ss"
  show "(sr_id r \<notin> set (map sr_id (filter (\<lambda>s. sr_flugzeug_id s = i) ss))) = (sr_flugzeug_id r \<noteq> i)"
  proof
    assume "sr_id r \<notin> set (map sr_id (filter (\<lambda>s. sr_flugzeug_id s = i) ss))"
    with r show "sr_flugzeug_id r \<noteq> i" by auto
  next
    assume ne: "sr_flugzeug_id r \<noteq> i"
    show "sr_id r \<notin> set (map sr_id (filter (\<lambda>s. sr_flugzeug_id s = i) ss))"
    proof
      assume "sr_id r \<in> set (map sr_id (filter (\<lambda>s. sr_flugzeug_id s = i) ss))"
      then obtain s where "s \<in> set ss" "sr_flugzeug_id s = i" "sr_id s = sr_id r" by auto
      with assms r have "s = r" by (metis distinct_key_eq)
      with \<open>sr_flugzeug_id s = i\<close> ne show False by simp
    qed
  qed
qed

text \<open>
  What the work of \<open>delete\<close> does for an aircraft as \<open>findById\<close> loads it, started in a
  state \<open>d0\<close>: it ends at the first statement that fails, with the tables as the
  statements before it left them.
\<close>

lemma delete_work_loaded:
  "delete_work faults (loaded d True r m) i d0 =
     (let ss = filter (\<lambda>s. sr_flugzeug_id s = r_id r) (sitzplaetze d);
          ok = (\<lambda>s. \<not> faults (DeleteSitzplatz (sr_id s)));
          d1 = d0\<lparr>modelle := filter (\<lambda>x. mr_id x \<noteq> mr_id m) (modelle d0),
                  journal := journal d0 @ [DeleteModell (mr_id m)]\<rparr>;
          d2 = d1\<lparr>sitzplaetze :=
                    filter (\<lambda>x. sr_id x \<notin> set (map sr_id (takeWhile ok ss))) (sitzplaetze d1),
                  journal := journal d1 @ map (\<lambda>s. DeleteSitzplatz (sr_id s)) (takeWhile ok ss)\<rparr>
      in if faults (DeleteModell (mr_id m)) then (Inl (QueryFailedError (DeleteModell (mr_id m))), d0)
         else if \<not> list_all ok ss
         then (Inl (QueryFailedError (DeleteSitzplatz (sr_id (hd (dropWhile ok ss))))), d2)
         else tm_delete faults FlugzeugTable (Some i) d2)"
  by (simp add: delete_work_def loaded_fields modell_of_row_def tm_delete_def delete_stmt_def
      delete_sitzplaetze_rows Let_def)

text \<open>
  C5. For a stored aircraft with its model and its seats, in a storage that satisfies the
  key constraints, \<open>delete\<close> runs one transaction: the journal shows its start, the
  deletion of the model row, then of each seat row, then of the aircraft row, and its
  end. When no statement fails, the end is the commit, the result is true, which is what
  the count of the last statement says (one row), and no model row and no seat row of
  the aircraft is left. When a statement fails, the statements before it were executed,
  the end is the rollback, the error of the failed statement is raised, and all three
  tables are what they were before: the deletion happens as a whole or not at all.
\<close>

theorem delete_removes_modell_sitzplaetze_flugzeug:
  assumes "wf_db d" and "findById d i True = Inr f"
  shows "\<exists>m stmts.
           List.find (\<lambda>m. mr_flugzeug_id m = i) (modelle d) = Some m \<and>
           stmts =
             DeleteModell (mr_id m) #
             map (\<lambda>s. DeleteSitzplatz (sr_id s)) (filter (\<lambda>s. sr_flugzeug_id s = i) (sitzplaetze d)) @
             [DeleteFlugzeug i] \<and>
           ((\<forall>st \<in> set stmts. \<not> faults st) \<longrightarrow>
              (\<exists>d2 res d3.
                 journal d2 = journal d @ StartTransaction # butlast stmts \<and>
                 tm_delete faults FlugzeugTable (Some i) d2 = (Inr res, d3) \<and>
                 affected res = Some 1 \<and>
                 delete faults d i =
                   (Inr (\<exists>n. affected res = Some n \<and> 0 < n), d3\<lparr>journal := journal d3 @ [Commit]\<rparr>)) \<and>
              delete faults d i =
                (Inr True,
                 d\<lparr>flugzeuge := filter (\<lambda>r. r_id r \<noteq> i) (flugzeuge d),
                   modelle := filter (\<lambda>r. mr_flugzeug_id r \<noteq> i) (modelle d),
                   sitzplaetze := filter (\<lambda>r. sr_flugzeug_id r \<noteq> i) (sitzplaetze d),
                   journal := journal d @ StartTransaction # stmts @ [Commit]\<rparr>)) \<and>
           ((\<exists>st \<in> set stmts. faults st) \<longrightarrow>
              delete faults d i =
                (Inl (QueryFailedError (hd (dropWhile (\<lambda>st. \<not> faults st) stmts))),
                 d\<lparr>journal :=
                     journal d @ StartTransaction # takeWhile (\<lambda>st. \<not> faults st) stmts @ [Rollback]\<rparr>))"
proof -
  from findById_Inr_D [OF assms(2)] obtain r m where r: "r \<in> set (flugzeuge d)" "r_id r = i"
    and m: "List.find (\<lambda>m. mr_flugzeug_id m = i) (modelle d) = Some m"
    and f: "f = loaded d True r m" by blast
  from m have m_in: "m \<in> set (modelle d)" and m_fk: "mr_flugzeug_id m = i"
    by (auto dest: find_Some_D)
  from assms(1) have dist: "distinct (map r_id (flugzeuge d))" "distinct (map mr_id (modelle d))"
    "distinct (map mr_flugzeug_id (modelle d))" "distinct (map sr_id (sitzplaetze d))"
    by (simp_all add: wf_db_def)
  let ?ss = "filter (\<lambda>s. sr_flugzeug_id s = i) (sitzplaetze d)"
  let ?g = "\<lambda>s. DeleteSitzplatz (sr_id s)"
  let ?ok = "\<lambda>st. \<not> faults st"
  let ?DM = "DeleteModell (mr_id m)"
  let ?stmts = "?DM # map ?g ?ss @ [DeleteFlugzeug i]"
  let ?d0 = "d\<lparr>journal := journal d @ [StartTransaction]\<rparr>"
  let ?d2 = "d\<lparr>modelle := filter (\<lambda>r. mr_flugzeug_id r \<noteq> i) (modelle d),
               sitzplaetze := filter (\<lambda>r. sr_flugzeug_id r \<noteq> i) (sitzplaetze d),
               journal := journal d @ StartTransaction # ?DM # map ?g ?ss\<rparr>"
  let ?res = "\<lparr>affected = Some (1::nat)\<rparr>"
  let ?d3 = "?d2\<lparr>flugzeuge := filter (\<lambda>r. r_id r \<noteq> i) (flugzeuge d),
                 journal := journal ?d2 @ [DeleteFlugzeug i]\<rparr>"
  have cnt: "length (filter (\<lambda>x. r_id x = i) (flugzeuge d)) = 1"
    using filter_key_distinct [OF dist(1) r(1)] r(2) by simp
  have fmod: "filter (\<lambda>r. mr_id r \<noteq> mr_id m) (modelle d) =
              filter (\<lambda>r. mr_flugzeug_id r \<noteq> i) (modelle d)"
    using filter_own_modell [OF dist(2) dist(3) m_in] m_fk by simp
  note work = delete_work_loaded [of faults d r m i ?d0, unfolded r(2) Let_def]
  have good: "delete faults d i = (Inr True, ?d3\<lparr>journal := journal ?d3 @ [Commit]\<rparr>)"
      and last: "tm_delete faults FlugzeugTable (Some i) ?d2 = (Inr ?res, ?d3)"
    if "\<forall>st \<in> set ?stmts. \<not> faults st"
  proof -
    from that have ok: "\<not> faults ?DM" "list_all (\<lambda>s. \<not> faults (?g s)) ?ss" "\<not> faults (DeleteFlugzeug i)"
      by (auto simp: list_all_iff)
    from ok(2) have tw: "takeWhile (\<lambda>s. \<not> faults (?g s)) ?ss = ?ss"
      by (simp add: list_all_iff takeWhile_eq_all_conv)
    show "tm_delete faults FlugzeugTable (Some i) ?d2 = (Inr ?res, ?d3)"
      using ok(3) by (simp add: tm_delete_def delete_stmt_def cnt)
    have w: "delete_work faults f i ?d0 = (Inr ?res, ?d3)"
      using ok
      by (simp add: f work tw fmod filter_own_sitzplaetze [OF dist(4), simplified]
          tm_delete_def delete_stmt_def cnt)
    show "delete faults d i = (Inr True, ?d3\<lparr>journal := journal ?d3 @ [Commit]\<rparr>)"
      by (simp add: delete_def assms(2) transaction_def w Let_def)
  qed
  have bad: "delete faults d i =
       (Inl (QueryFailedError (hd (dropWhile ?ok ?stmts))),
        d\<lparr>journal := journal d @ StartTransaction # takeWhile ?ok ?stmts @ [Rollback]\<rparr>)"
    if ex: "\<exists>st \<in> set ?stmts. faults st"
  proof -
    consider (modell) "faults ?DM"
      | (seat) "\<not> faults ?DM" "\<not> list_all (\<lambda>s. \<not> faults (?g s)) ?ss"
      | (flugzeug) "\<not> faults ?DM" "list_all (\<lambda>s. \<not> faults (?g s)) ?ss" "faults (DeleteFlugzeug i)"
      using ex by (auto simp: list_all_iff)
    then show ?thesis
    proof cases
      case modell
      then have "delete_work faults f i ?d0 = (Inl (QueryFailedError ?DM), ?d0)"
        by (simp add: f work)
      with modell show ?thesis
        by (simp add: delete_def assms(2) transaction_def Let_def)
    next
      case seat
      from seat(2) have tk: "takeWhile ?ok (map ?g ?ss @ [DeleteFlugzeug i]) =
            map ?g (takeWhile (\<lambda>s. \<not> faults (?g s)) ?ss)"
        by (rule takeWhile_map_append_stop)
      from seat(2) have dr: "hd (dropWhile ?ok (map ?g ?ss @ [DeleteFlugzeug i])) =
            ?g (hd (dropWhile (\<lambda>s. \<not> faults (?g s)) ?ss))"
        by (rule dropWhile_map_append_stop)
      from seat have "fst (delete_work faults f i ?d0) =
            Inl (QueryFailedError (?g (hd (dropWhile (\<lambda>s. \<not> faults (?g s)) ?ss))))"
        and "journal (snd (delete_work faults f i ?d0)) =
            journal d @ StartTransaction # ?DM # map ?g (takeWhile (\<lambda>s. \<not> faults (?g s)) ?ss)"
        by (simp_all add: f work)
      with seat(1) show ?thesis
        by (simp add: delete_def assms(2) transaction_def Let_def tk dr)
    next
      case flugzeug
      from flugzeug(2) have tw: "takeWhile (\<lambda>s. \<not> faults (?g s)) ?ss = ?ss"
        by (simp add: list_all_iff takeWhile_eq_all_conv)
      from flugzeug(2,3) have tk: "takeWhile ?ok (map ?g ?ss @ [DeleteFlugzeug i]) = map ?g ?ss"
        by (simp add: takeWhile_map_append_pass)
      from flugzeug(2,3) have dr: "hd (dropWhile ?ok (map ?g ?ss @ [DeleteFlugzeug i])) = DeleteFlugzeug i"
        by (simp add: dropWhile_map_append_pass)
      from flugzeug have "fst (delete_work faults f i ?d0) = Inl (QueryFailedError (DeleteFlugzeug i))"
        and "journal (snd (delete_work faults f i ?d0)) =
            journal d @ StartTransaction # ?DM # map ?g ?ss"
        by (simp_all add: f work tw tm_delete_def delete_stmt_def)
      with flugzeug(1) show ?thesis
        by (simp add: delete_def assms(2) transaction_def Let_def tk dr)
    qed
  qed
  show ?thesis
  proof (intro exI conjI impI)
    show "List.find (\<lambda>m. mr_flugzeug_id m = i) (modelle d) = Some m" by (rule m)
    show "?stmts = ?DM # map ?g ?ss @ [DeleteFlugzeug i]" by (rule refl)
  next
    assume a: "\<forall>st \<in> set ?stmts. \<not> faults st"
    show "journal ?d2 = journal d @ StartTransaction # butlast ?stmts"
      by (simp add: butlast_append)
    show "tm_delete faults FlugzeugTable (Some i) ?d2 = (Inr ?res, ?d3)"
      by (rule last [OF a])
    show "affected ?res = Some 1" by simp
    show "delete faults d i =
        (Inr (\<exists>n. affected ?res = Some n \<and> 0 < n), ?d3\<lparr>journal := journal ?d3 @ [Commit]\<rparr>)"
      using good [OF a] by simp
    show "delete faults d i =
        (Inr True,
         d\<lparr>flugzeuge := filter (\<lambda>r. r_id r \<noteq> i) (flugzeuge d),
           modelle := filter (\<lambda>r. mr_flugzeug_id r \<noteq> i) (modelle d),
           sitzplaetze := filter (\<lambda>r. sr_flugzeug_id r \<noteq> i) (sitzplaetze d),
           journal := journal d @ StartTransaction # ?stmts @ [Commit]\<rparr>)"
      using good [OF a] by simp
  next
    assume "\<exists>st \<in> set ?stmts. faults st"
    then show "delete faults d i =
        (Inl (QueryFailedError (hd (dropWhile ?ok ?stmts))),
         d\<lparr>journal := journal d @ StartTransaction # takeWhile ?ok ?stmts @ [Rollback]\<rparr>)"
      by (rule bad)
  qed
qed

theorem delete_removes_modell_sitzplaetze_flugzeug_witness:
  "wf_db sample_db \<and>
   findById sample_db 1 True =
     Inr (loaded sample_db True (flugzeuge sample_db ! 0) (modelle sample_db ! 0)) \<and>
   delete no_faults sample_db 1 =
     (Inr True,
      \<lparr>flugzeuge = [flugzeuge sample_db ! 1], modelle = [modelle sample_db ! 1],
       sitzplaetze = [sitzplaetze sample_db ! 2],
       journal = [StartTransaction, DeleteModell 10, DeleteSitzplatz 100, DeleteSitzplatz 101,
                  DeleteFlugzeug 1, Commit]\<rparr>) \<and>
   delete sample_fault sample_db 1 =
     (Inl (QueryFailedError (DeleteSitzplatz 101)),
      sample_db\<lparr>journal := [StartTransaction, DeleteModell 10, DeleteSitzplatz 100, Rollback]\<rparr>)"
proof -
  let ?f = "loaded sample_db True (flugzeuge sample_db ! 0) (modelle sample_db ! 0)"
  have wf: "wf_db sample_db" by (simp add: wf_db_def sample_db_def)
  have fb: "findById sample_db 1 True = Inr ?f" by code_simp
  have m: "List.find (\<lambda>m. mr_flugzeug_id m = 1) (modelle sample_db) = Some (modelle sample_db ! 0)"
    by (simp add: sample_db_def)
  from delete_removes_modell_sitzplaetze_flugzeug [OF wf fb, of no_faults] m
  have a: "delete no_faults sample_db 1 =
     (Inr True,
      \<lparr>flugzeuge = [flugzeuge sample_db ! 1], modelle = [modelle sample_db ! 1],
       sitzplaetze = [sitzplaetze sample_db ! 2],
       journal = [StartTransaction, DeleteModell 10, DeleteSitzplatz 100, DeleteSitzplatz 101,
                  DeleteFlugzeug 1, Commit]\<rparr>)"
    by (auto simp: sample_db_def no_faults_def)
  from delete_removes_modell_sitzplaetze_flugzeug [OF wf fb, of sample_fault] m
  have b: "delete sample_fault sample_db 1 =
     (Inl (QueryFailedError (DeleteSitzplatz 101)),
      sample_db\<lparr>journal := [StartTransaction, DeleteModell 10, DeleteSitzplatz 100, Rollback]\<rparr>)"
    by (auto simp: sample_db_def sample_fault_def)
  from wf fb a b show ?thesis by simp
qed

text \<open>
  \<open>delete\<close> never returns false: when the lookup has found the aircraft, the statements
  before the last one leave its row in place, and the last one removes it or fails.
\<close>

lemma delete_never_false: "fst (delete faults d i) \<noteq> Inr False"
proof
  assume a: "fst (delete faults d i) = Inr False"
  then obtain f where fb: "findById d i True = Inr f"
    by (auto simp: delete_def split: sum.splits)
  from findById_Inr_D [OF fb] obtain r m where r: "r \<in> set (flugzeuge d)" "r_id r = i"
    and f: "f = loaded d True r m" by blast
  let ?d0 = "d\<lparr>journal := journal d @ [StartTransaction]\<rparr>"
  from a fb obtain res where w: "fst (delete_work faults f i ?d0) = Inr res"
    and aff: "\<not> (case affected res of None \<Rightarrow> False | Some n \<Rightarrow> 0 < n)"
    by (auto simp: delete_def transaction_def Let_def split: sum.splits)
  from w have "affected res = Some (length (filter (\<lambda>x. r_id x = i) (flugzeuge d)))"
    by (auto simp: f delete_work_loaded Let_def tm_delete_def delete_stmt_def split: if_splits)
  moreover from r have "filter (\<lambda>x. r_id x = i) (flugzeuge d) \<noteq> []"
    by (auto simp: filter_empty_conv)
  ultimately show False using aff by simp
qed

section \<open>Frame of an update\<close>









text \<open>
  The hypotheses on the model and the seats are needed as well: \<open>save\<close> writes a model
  that the entity carries through to its row, so a patch with a model changes the model
  row.
\<close>

lemma update_with_modell_in_patch:
  "map_sum id (map mr_modell \<circ> modelle \<circ> snd)
     (update sample_db (Some 1) (sample_patch\<lparr>f_modell := Some \<lparr>m_id = None, m_modell = ''X''\<rparr>\<rparr>)
        (dq # ''0'' @ [dq])) = Inr [''X'', ''Beta'']"
  by code_simp

section \<open>Where the code departs from the specification\<close>

text \<open>
  C1. The version pattern has no end anchor: a token that goes on after the closing quote
  passes the check, and the update is carried out with the number between the quotes.
  Here the token is \<open>"0"x\<close> for the aircraft 1 of the sample data, stored at version 0;
  and whatever follows \<open>"0"\<close>, in no storage is the token rejected as invalid.
\<close>

theorem version_token_with_trailing_text_is_accepted:
  "test VERSION_PATTERN (dq # ''0'' @ dq # ''x'') \<and>
   map_sum id fst
     (update sample_db (Some 1) sample_patch (dq # ''0'' @ dq # ''x'')) = Inr (Some 1) \<and>
   test VERSION_PATTERN (dq # ''0'' @ dq # rest) \<and>
   update d (Some i) p (dq # ''0'' @ dq # rest) \<noteq> Inl (VersionInvalidException x)"
proof -
  have "test VERSION_PATTERN (dq # ''0'' @ dq # ''x'') \<and>
        map_sum id fst
          (update sample_db (Some 1) sample_patch (dq # ''0'' @ dq # ''x'')) = Inr (Some 1)"
    by code_simp
  moreover have "test VERSION_PATTERN (dq # ''0'' @ dq # rest)"
    by (simp add: VERSION_PATTERN_unfold is_digit_def)
  ultimately show ?thesis
    by (simp add: update_version_invalid_iff)
qed

text \<open>
  C3. The key check lets \<open>javascript\<close> and \<open>typescript\<close> through although they are no
  properties of an aircraft: \<open>find\<close> does not reject them, and the query it runs compares
  a column of that name.
\<close>

theorem checkKeys_accepts_javascript_and_typescript:
  "''javascript'' \<notin> set flugzeugPropertyNames \<and>
   ''typescript'' \<notin> set flugzeugPropertyNames \<and>
   checkKeys flugzeugPropertyNames [''javascript''] \<and>
   checkKeys flugzeugPropertyNames [''typescript''] \<and>
   find_flugzeuge sat flugzeugPropertyNames t d (Some [(''javascript'', v)]) =
     (if getMany sat (build t [(''javascript'', v)]) d = []
      then Inl (NotFoundException (KeineFlugzeugeGefunden [(''javascript'', v)]))
      else Inr (getMany sat (build t [(''javascript'', v)]) d)) \<and>
   q_wheres (build t [(''javascript'', v)]) =
     [(SimpleWhere, ''flugzeug.javascript = :javascript'')]"
  by (simp add: find_flugzeuge_def checkKeys_def flugzeugPropertyNames_def build_def
      build_step_def createQueryBuilder_def innerJoinAndSelect_def where_qb_def flugzeugAlias_eq)

text \<open>
  C4. \<open>delete\<close> of an identifier without a stored aircraft does not return false: the
  lookup it starts with raises NotFound, and so does \<open>delete\<close>. This holds in every storage
  that has no row of the identifier, as in the sample data for the identifier 99; and
  false is a result \<open>delete\<close> never has.
\<close>

theorem delete_of_absent_id_raises_not_found:
  "delete faults (d\<lparr>flugzeuge := filter (\<lambda>r. r_id r \<noteq> i) (flugzeuge d)\<rparr>) i =
     (Inl (NotFoundException (KeinFlugzeugMitId (Some i))),
      d\<lparr>flugzeuge := filter (\<lambda>r. r_id r \<noteq> i) (flugzeuge d)\<rparr>) \<and>
   delete faults sample_db 99 = (Inl (NotFoundException (KeinFlugzeugMitId (Some 99))), sample_db) \<and>
   fst (delete faults d i) \<noteq> Inr False"
proof -
  have "findById sample_db 99 True = Inl (NotFoundException (KeinFlugzeugMitId (Some 99)))"
    by code_simp
  then show ?thesis
    by (simp add: delete_def findById_absent delete_never_false [unfolded delete_def])
qed

end
